theory Spec2Isabelle
  imports Main
begin

section \<open>Audio input configuration (sdk/Audio/AudioConfig.ts)\<close>

text \<open>
  The file declares the abstract class \<open>AudioConfig\<close> with three static factories and the
  concrete class \<open>AudioConfigImpl\<close>, a wrapper that holds one \<open>IAudioSource\<close> in its private
  field \<open>source\<close> and implements \<open>IAudioSource\<close> itself.

  The producer classes (\<open>MicAudioSource\<close>, \<open>FileAudioSource\<close>, \<open>PullAudioInputStreamImpl\<close>,
  \<open>PushAudioInputStreamImpl\<close>) and the interface \<open>IAudioSource\<close> are imported from other
  modules. Their constructors are modelled as data constructors (they store their argument),
  and their methods are a parameter of the model: a method table looked up from the wrapped
  object.
\<close>

subsection \<open>Values, errors and promises\<close>

text \<open>A thrown JavaScript \<open>Error\<close> carries its message.\<close>

datatype error = Error string

text \<open>
  The classes that the factories test with \<open>instanceof\<close> or name in a parameter type, and
  the two stream classes the file imports from \<open>./AudioInputStream\<close>: the push stream and
  the pull stream.
\<close>

datatype jsclass = PullAudioInputStreamCallback | AudioInputStream | File
  | PushAudioInputStreamImpl_class | PullAudioInputStreamImpl_class | OtherClass string

text \<open>
  A run-time value handed to a factory. An object carries the classes on its prototype
  chain and an identity; primitive values have no prototype chain that \<open>instanceof\<close> inspects.
\<close>

datatype jsval = JSNumber int | JSString string | JSObject "jsclass list" nat

fun instanceof :: "jsval \<Rightarrow> jsclass \<Rightarrow> bool" where
  "instanceof (JSObject chain ident) c = (c \<in> set chain)"
| "instanceof (JSNumber n) c = False"
| "instanceof (JSString s) c = False"

text \<open>The eventual outcome of a \<open>Promise<T>\<close>.\<close>

datatype 'a Promise = Resolved 'a | Rejected error

subsection \<open>The wrapped source\<close>

text \<open>
  A method of the wrapped source runs on the state of the world \<open>'w\<close> (the wrapped object's
  own state included); it returns a value or throws, and leaves a new world.
\<close>

type_synonym ('a, 'w) member = "'w \<Rightarrow> (error + 'a) \<times> 'w"

text \<open>
  The interface \<open>IAudioSource\<close>: \<open>Id(): string\<close>, \<open>TurnOn(): Promise<boolean>\<close>,
  \<open>Attach(audioNodeId): Promise<IAudioStreamNode>\<close>, \<open>Detach(audioNodeId): void\<close>,
  \<open>TurnOff(): Promise<boolean>\<close> and the property \<open>Events\<close>. \<open>'n\<close> stands for
  \<open>IAudioStreamNode\<close>, \<open>'e\<close> for \<open>EventSource<AudioSourceEvent>\<close>.
\<close>

record ('w, 'n, 'e) IAudioSource =
  Id_m :: "(string, 'w) member"
  TurnOn_m :: "(bool Promise, 'w) member"
  Attach_m :: "string \<Rightarrow> ('n Promise, 'w) member"
  Detach_m :: "string \<Rightarrow> (unit, 'w) member"
  TurnOff_m :: "(bool Promise, 'w) member"
  Events_m :: "('e, 'w) member"

text \<open>The objects that the factories pass to the constructor of \<open>AudioConfigImpl\<close>.\<close>

datatype PcmRecorder = PcmRecorder

datatype source_obj =
    MicAudioSource PcmRecorder
  | FileAudioSource jsval
  | PullAudioInputStreamImpl jsval
  | as_PushAudioInputStreamImpl jsval

subsection \<open>AudioConfigImpl\<close>

record 's AudioConfigImpl =
  source :: 's

text \<open>The constructor: \<open>super(); this.source = source;\<close>\<close>

definition new_AudioConfigImpl :: "'s \<Rightarrow> 's AudioConfigImpl" where
  "new_AudioConfigImpl src = \<lparr>source = src\<rparr>"

text \<open>
  Every method takes the method table \<open>I\<close> (dynamic dispatch on \<open>this.source\<close>), the
  receiver \<open>this\<close> and the world, and returns what it returned or threw, the receiver
  afterwards and the world afterwards.
\<close>

definition close ::
  "('s \<Rightarrow> ('w, 'n, 'e) IAudioSource) \<Rightarrow> 's AudioConfigImpl \<Rightarrow> 'w
     \<Rightarrow> (error + unit) \<times> 's AudioConfigImpl \<times> 'w" where
  "close I this w =
     (case TurnOff_m (I (source this)) w of
        (Inl e, w') \<Rightarrow> (Inl e, this, w')
      | (Inr p, w') \<Rightarrow> (Inr (), this, w'))"

definition Id_impl ::
  "('s \<Rightarrow> ('w, 'n, 'e) IAudioSource) \<Rightarrow> 's AudioConfigImpl \<Rightarrow> 'w
     \<Rightarrow> (error + string) \<times> 's AudioConfigImpl \<times> 'w" where
  "Id_impl I this w =
     (case Id_m (I (source this)) w of (r, w') \<Rightarrow> (r, this, w'))"

definition TurnOn ::
  "('s \<Rightarrow> ('w, 'n, 'e) IAudioSource) \<Rightarrow> 's AudioConfigImpl \<Rightarrow> 'w
     \<Rightarrow> (error + bool Promise) \<times> 's AudioConfigImpl \<times> 'w" where
  "TurnOn I this w =
     (case TurnOn_m (I (source this)) w of (r, w') \<Rightarrow> (r, this, w'))"

definition Attach ::
  "('s \<Rightarrow> ('w, 'n, 'e) IAudioSource) \<Rightarrow> 's AudioConfigImpl \<Rightarrow> string \<Rightarrow> 'w
     \<Rightarrow> (error + 'n Promise) \<times> 's AudioConfigImpl \<times> 'w" where
  "Attach I this audioNodeId w =
     (case Attach_m (I (source this)) audioNodeId w of (r, w') \<Rightarrow> (r, this, w'))"

text \<open>
  \<open>Detach\<close> is \<open>return this.Detach(audioNodeId);\<close>: the method calls itself on the same
  receiver with the same argument. A run that does not return is the value \<open>None\<close>.
\<close>

partial_function (option) Detach ::
  "'s AudioConfigImpl \<Rightarrow> string \<Rightarrow> 'w \<Rightarrow> ((error + unit) \<times> 's AudioConfigImpl \<times> 'w) option" where
  "Detach this audioNodeId w = Detach this audioNodeId w"

text \<open>
  The same method on an engine whose call stack has room for \<open>frames\<close> more calls. Every
  call takes a frame and does nothing but call again; with no frame left the engine
  throws its stack-overflow error, which the caller can catch. What is returned is the
  error, the receiver and the world as the calls left them.
\<close>

fun Detach_on_stack ::
  "nat \<Rightarrow> 's AudioConfigImpl \<Rightarrow> string \<Rightarrow> 'w \<Rightarrow> (error + unit) \<times> 's AudioConfigImpl \<times> 'w" where
  "Detach_on_stack 0 this audioNodeId w =
     (Inl (Error ''Maximum call stack size exceeded''), this, w)"
| "Detach_on_stack (Suc frames) this audioNodeId w = Detach_on_stack frames this audioNodeId w"

definition TurnOff ::
  "('s \<Rightarrow> ('w, 'n, 'e) IAudioSource) \<Rightarrow> 's AudioConfigImpl \<Rightarrow> 'w
     \<Rightarrow> (error + bool Promise) \<times> 's AudioConfigImpl \<times> 'w" where
  "TurnOff I this w =
     (case TurnOff_m (I (source this)) w of (r, w') \<Rightarrow> (r, this, w'))"

definition Events ::
  "('s \<Rightarrow> ('w, 'n, 'e) IAudioSource) \<Rightarrow> 's AudioConfigImpl \<Rightarrow> 'w
     \<Rightarrow> (error + 'e) \<times> 's AudioConfigImpl \<times> 'w" where
  "Events I this w =
     (case Events_m (I (source this)) w of (r, w') \<Rightarrow> (r, this, w'))"

subsection \<open>The factories of AudioConfig\<close>

definition fromDefaultMicrophoneInput :: "source_obj AudioConfigImpl" where
  "fromDefaultMicrophoneInput =
     (let pcmRecorder = PcmRecorder in new_AudioConfigImpl (MicAudioSource pcmRecorder))"

definition fromWavFileInput :: "jsval \<Rightarrow> error + source_obj AudioConfigImpl" where
  "fromWavFileInput file = Inr (new_AudioConfigImpl (FileAudioSource file))"

definition fromStreamInput :: "jsval \<Rightarrow> error + source_obj AudioConfigImpl" where
  "fromStreamInput audioStream =
     (if instanceof audioStream PullAudioInputStreamCallback
      then Inr (new_AudioConfigImpl (PullAudioInputStreamImpl audioStream))
      else if instanceof audioStream AudioInputStream
      then Inr (new_AudioConfigImpl (as_PushAudioInputStreamImpl audioStream))
      else Inl (Error ''Not Supported Type''))"

subsection \<open>Sequences of calls\<close>

text \<open>
  A caller's calls on one handle, each result dropped and each exception caught: the
  handle and the world after the last call. \<open>frames\<close> is the room on the engine's call
  stack when a call starts.
\<close>

datatype op = Op_close | Op_Id | Op_TurnOn | Op_Attach string | Op_Detach string
  | Op_TurnOff | Op_Events

fun step ::
  "('s \<Rightarrow> ('w, 'n, 'e) IAudioSource) \<Rightarrow> nat \<Rightarrow> op \<Rightarrow> 's AudioConfigImpl \<Rightarrow> 'w
     \<Rightarrow> 's AudioConfigImpl \<times> 'w" where
  "step I frames Op_close this w = snd (close I this w)"
| "step I frames Op_Id this w = snd (Id_impl I this w)"
| "step I frames Op_TurnOn this w = snd (TurnOn I this w)"
| "step I frames (Op_Attach audioNodeId) this w = snd (Attach I this audioNodeId w)"
| "step I frames (Op_Detach audioNodeId) this w = snd (Detach_on_stack frames this audioNodeId w)"
| "step I frames Op_TurnOff this w = snd (TurnOff I this w)"
| "step I frames Op_Events this w = snd (Events I this w)"

fun run ::
  "('s \<Rightarrow> ('w, 'n, 'e) IAudioSource) \<Rightarrow> nat \<Rightarrow> op list \<Rightarrow> 's AudioConfigImpl \<Rightarrow> 'w
     \<Rightarrow> 's AudioConfigImpl \<times> 'w" where
  "run I frames [] this w = (this, w)"
| "run I frames (x # xs) this w =
     (case step I frames x this w of (this', w') \<Rightarrow> run I frames xs this' w')"

text \<open>\<open>h.close(); h.Attach(audioNodeId)\<close> and \<open>h.close(); h.close()\<close>.\<close>

definition close_then_Attach ::
  "('s \<Rightarrow> ('w, 'n, 'e) IAudioSource) \<Rightarrow> 's AudioConfigImpl \<Rightarrow> string \<Rightarrow> 'w
     \<Rightarrow> (error + 'n Promise) \<times> 's AudioConfigImpl \<times> 'w" where
  "close_then_Attach I this audioNodeId w =
     (case close I this w of (r, this', w') \<Rightarrow> Attach I this' audioNodeId w')"

definition close_twice ::
  "('s \<Rightarrow> ('w, 'n, 'e) IAudioSource) \<Rightarrow> 's AudioConfigImpl \<Rightarrow> 'w
     \<Rightarrow> (error + unit) \<times> 's AudioConfigImpl \<times> 'w" where
  "close_twice I this w =
     (case close I this w of (r, this', w') \<Rightarrow> close I this' w')"

text \<open>
  Whether a call failed with the error named \<open>msg\<close>, by a throw or by a rejected promise.
\<close>

fun fails_with :: "string \<Rightarrow> error + 'a Promise \<Rightarrow> bool" where
  "fails_with msg (Inl (Error m)) = (m = msg)"
| "fails_with msg (Inr (Rejected (Error m))) = (m = msg)"
| "fails_with msg (Inr (Resolved v)) = False"

subsection \<open>A concrete wrapped source\<close>

text \<open>
  A source that can be turned on again after it was turned off, as a recorder can: it
  keeps whether it runs and how often it was stopped. \<open>TurnOff\<close> answers with the promise
  \<open>p\<close>. It serves as the concrete input of the examples below.
\<close>

record recorder_state =
  running :: bool
  stops :: nat

definition recorder :: "bool Promise \<Rightarrow> (recorder_state, string, string) IAudioSource" where
  "recorder p =
     \<lparr>Id_m = (\<lambda>w. (Inr ''source-1'', w)),
      TurnOn_m = (\<lambda>w. (Inr (Resolved True), w\<lparr>running := True\<rparr>)),
      Attach_m = (\<lambda>audioNodeId w. (Inr (Resolved audioNodeId), w\<lparr>running := True\<rparr>)),
      Detach_m = (\<lambda>audioNodeId w. (Inr (), w)),
      TurnOff_m = (\<lambda>w. (Inr p, w\<lparr>running := False, stops := stops w + 1\<rparr>)),
      Events_m = (\<lambda>w. (Inr ''events'', w))\<rparr>"

definition recorders :: "bool Promise \<Rightarrow> source_obj \<Rightarrow> (recorder_state, string, string) IAudioSource" where
  "recorders p src = recorder p"

definition idle :: recorder_state where
  "idle = \<lparr>running = False, stops = 0\<rparr>"



section \<open>Detach\<close>

lemma Detach_not_Some: "Detach this audioNodeId w \<noteq> Some r"
proof
  assume returns: "Detach this audioNodeId w = Some r"
  show False
    by (rule Detach.raw_induct [where P = "\<lambda>_ _ _ _. False", OF _ returns]) blast
qed

lemma Detach_None: "Detach this audioNodeId w = None"
  using Detach_not_Some [of this audioNodeId w] by (cases "Detach this audioNodeId w") auto

lemma Detach_on_stack_overflows:
  "Detach_on_stack frames this audioNodeId w
     = (Inl (Error ''Maximum call stack size exceeded''), this, w)"
  by (induction frames) simp_all

text \<open>
  C1 (the claim: \<open>Detach\<close> terminates and forwards to the wrapped source's detach; it is
  not defined in terms of itself). The code does the opposite: \<open>Detach\<close> is defined by a
  call of itself, so for every receiver, node id and world the call never returns, and
  the wrapped source's \<open>Detach\<close> is never reached.
\<close>

theorem Detach_never_returns: "Detach this audioNodeId w = None"
  by (rule Detach_None)

section \<open>The factories\<close>

text \<open>
  C2, as amended: \<open>fromStreamInput\<close> decides by two \<open>instanceof\<close> tests, in this order. An
  instance of \<open>PullAudioInputStreamCallback\<close> gives a handle on a new
  \<open>PullAudioInputStreamImpl\<close> of it. Otherwise an instance of \<open>AudioInputStream\<close>, of
  whatever kind of stream, gives a handle on that object itself, taken as the push-stream
  source; no new source is built. An argument that passes neither test throws the error
  \<open>Not Supported Type\<close>, and no handle and no source exists then. The two sources are
  different variants, so exactly one of them is wrapped when a handle is returned.
\<close>

theorem fromStreamInput_dispatch:
  "(instanceof a PullAudioInputStreamCallback \<longrightarrow>
      fromStreamInput a = Inr (new_AudioConfigImpl (PullAudioInputStreamImpl a))) \<and>
   (\<not> instanceof a PullAudioInputStreamCallback \<and> instanceof a AudioInputStream \<longrightarrow>
      fromStreamInput a = Inr (new_AudioConfigImpl (as_PushAudioInputStreamImpl a))) \<and>
   (\<not> instanceof a PullAudioInputStreamCallback \<and> \<not> instanceof a AudioInputStream \<longrightarrow>
      fromStreamInput a = Inl (Error ''Not Supported Type'')) \<and>
   new_AudioConfigImpl (PullAudioInputStreamImpl a)
     \<noteq> new_AudioConfigImpl (as_PushAudioInputStreamImpl a)"
  by (simp add: fromStreamInput_def new_AudioConfigImpl_def)

theorem fromStreamInput_dispatch_witness:
  "instanceof (JSObject [PullAudioInputStreamCallback] 1) PullAudioInputStreamCallback \<and>
   fromStreamInput (JSObject [PullAudioInputStreamCallback] 1)
     = Inr (new_AudioConfigImpl (PullAudioInputStreamImpl (JSObject [PullAudioInputStreamCallback] 1))) \<and>
   \<not> instanceof (JSObject [PushAudioInputStreamImpl_class, AudioInputStream] 2)
       PullAudioInputStreamCallback \<and>
   instanceof (JSObject [PushAudioInputStreamImpl_class, AudioInputStream] 2) AudioInputStream \<and>
   fromStreamInput (JSObject [PushAudioInputStreamImpl_class, AudioInputStream] 2)
     = Inr (new_AudioConfigImpl (as_PushAudioInputStreamImpl
         (JSObject [PushAudioInputStreamImpl_class, AudioInputStream] 2))) \<and>
   \<not> instanceof (JSNumber 42) PullAudioInputStreamCallback \<and>
   \<not> instanceof (JSNumber 42) AudioInputStream \<and>
   fromStreamInput (JSNumber 42) = Inl (Error ''Not Supported Type'')"
  using fromStreamInput_dispatch [of "JSObject [PullAudioInputStreamCallback] 1"]
    fromStreamInput_dispatch [of "JSObject [PushAudioInputStreamImpl_class, AudioInputStream] 2"]
    fromStreamInput_dispatch [of "JSNumber 42"]
  by simp

text \<open>
  C2 as stated fails: a pull stream object is neither a pull-style callback nor a
  push-style stream, yet \<open>fromStreamInput\<close> does not fail on it: it returns a handle on
  the object, taken as a push-stream source.
\<close>

theorem fromStreamInput_counterexample:
  "\<not> instanceof (JSObject [PullAudioInputStreamImpl_class, AudioInputStream] 4)
       PullAudioInputStreamCallback \<and>
   \<not> instanceof (JSObject [PullAudioInputStreamImpl_class, AudioInputStream] 4)
       PushAudioInputStreamImpl_class \<and>
   fromStreamInput (JSObject [PullAudioInputStreamImpl_class, AudioInputStream] 4)
     \<noteq> Inl (Error ''Not Supported Type'') \<and>
   fromStreamInput (JSObject [PullAudioInputStreamImpl_class, AudioInputStream] 4)
     = Inr (new_AudioConfigImpl (as_PushAudioInputStreamImpl
         (JSObject [PullAudioInputStreamImpl_class, AudioInputStream] 4)))"
  by (simp add: fromStreamInput_def)

text \<open>
  C3, as amended: \<open>fromWavFileInput\<close> checks nothing at run time. For every argument it
  builds a \<open>FileAudioSource\<close> of the argument and returns a handle on it; it never fails
  with \<open>Not Supported Type\<close> or any other error of its own.
\<close>

theorem fromWavFileInput_total:
  "fromWavFileInput file = Inr (new_AudioConfigImpl (FileAudioSource file)) \<and>
   fromWavFileInput file \<noteq> Inl e"
  by (simp add: fromWavFileInput_def)

text \<open>
  C3 as stated fails: the number 42 is no \<open>File\<close>, and the factory returns a handle on a
  \<open>FileAudioSource\<close> of it instead of failing.
\<close>

theorem fromWavFileInput_counterexample:
  "\<not> instanceof (JSNumber 42) File \<and>
   fromWavFileInput (JSNumber 42) \<noteq> Inl (Error ''Not Supported Type'') \<and>
   fromWavFileInput (JSNumber 42) = Inr (new_AudioConfigImpl (FileAudioSource (JSNumber 42)))"
  by (simp add: fromWavFileInput_def)

text \<open>
  C10: the pull callback has priority. An argument that is both a pull-style callback
  and a stream object gives the handle on a \<open>PullAudioInputStreamImpl\<close>, never the one on
  the push stream.
\<close>

theorem fromStreamInput_pull_priority:
  assumes "instanceof a PullAudioInputStreamCallback" and "instanceof a AudioInputStream"
  shows "fromStreamInput a = Inr (new_AudioConfigImpl (PullAudioInputStreamImpl a)) \<and>
         fromStreamInput a \<noteq> Inr (new_AudioConfigImpl (as_PushAudioInputStreamImpl a))"
  using assms by (simp add: fromStreamInput_def new_AudioConfigImpl_def)

theorem fromStreamInput_pull_priority_witness:
  "instanceof (JSObject [PullAudioInputStreamCallback, AudioInputStream] 3) PullAudioInputStreamCallback \<and>
   instanceof (JSObject [PullAudioInputStreamCallback, AudioInputStream] 3) AudioInputStream \<and>
   fromStreamInput (JSObject [PullAudioInputStreamCallback, AudioInputStream] 3)
     = Inr (new_AudioConfigImpl
         (PullAudioInputStreamImpl (JSObject [PullAudioInputStreamCallback, AudioInputStream] 3)))"
  using fromStreamInput_pull_priority
    [of "JSObject [PullAudioInputStreamCallback, AudioInputStream] 3"]
  by simp

section \<open>The wrapper\<close>

lemmas wrapper_defs = close_def Id_impl_def TurnOn_def Attach_def TurnOff_def Events_def

lemma step_keeps_this: "fst (step I frames x this w) = this"
  by (cases x) (simp_all add: wrapper_defs Detach_on_stack_overflows split: prod.split sum.split)

lemma run_keeps_this: "fst (run I frames xs this w) = this"
proof (induction xs arbitrary: w)
  case Nil
  show ?case by simp
next
  case (Cons x xs)
  obtain t1 w1 where first: "step I frames x this w = (t1, w1)"
    by (cases "step I frames x this w")
  then have "t1 = this"
    using step_keeps_this [of I frames x this w] by simp
  with first show ?case
    using Cons.IH [of w1] by simp
qed

text \<open>
  C6: the wrapper forwards. \<open>Id\<close>, \<open>TurnOn\<close>, \<open>Attach\<close>, \<open>TurnOff\<close> and \<open>Events\<close> each return
  exactly what the like-named member of the wrapped source returns (or throws) and leave
  the world as that member leaves it; the handle itself is unchanged.
\<close>

theorem AudioConfigImpl_forwards:
  "Id_impl I this w
     = (fst (Id_m (I (source this)) w), this, snd (Id_m (I (source this)) w)) \<and>
   TurnOn I this w
     = (fst (TurnOn_m (I (source this)) w), this, snd (TurnOn_m (I (source this)) w)) \<and>
   Attach I this audioNodeId w
     = (fst (Attach_m (I (source this)) audioNodeId w), this,
        snd (Attach_m (I (source this)) audioNodeId w)) \<and>
   TurnOff I this w
     = (fst (TurnOff_m (I (source this)) w), this, snd (TurnOff_m (I (source this)) w)) \<and>
   Events I this w
     = (fst (Events_m (I (source this)) w), this, snd (Events_m (I (source this)) w))"
  by (simp add: wrapper_defs split: prod.split)

text \<open>
  C7: the wrapped source is bound once, by the constructor. After any sequence of
  \<open>close\<close>, \<open>Id\<close>, \<open>TurnOn\<close>, \<open>Attach\<close>, \<open>Detach\<close>, \<open>TurnOff\<close> and \<open>Events\<close>, on any wrapped
  source and with any room on the call stack, the handle is the one the constructor
  built: the field \<open>source\<close> still holds the object the constructor was given.
\<close>

theorem source_never_rebound:
  "fst (run I frames xs (new_AudioConfigImpl src) w) = new_AudioConfigImpl src \<and>
   source (fst (run I frames xs (new_AudioConfigImpl src) w)) = src"
  by (simp add: run_keeps_this) (simp add: new_AudioConfigImpl_def)

theorem source_never_rebound_witness:
  "run (recorders (Resolved True)) 3
       [Op_TurnOn, Op_Attach ''a'', Op_Detach ''a'', Op_Id, Op_Events, Op_TurnOff,
        Op_Detach ''b'', Op_close]
       (new_AudioConfigImpl (MicAudioSource PcmRecorder)) idle
     = (new_AudioConfigImpl (MicAudioSource PcmRecorder), \<lparr>running = False, stops = 2\<rparr>) \<and>
   source (fst (run (recorders (Resolved True)) 3
       [Op_TurnOn, Op_Attach ''a'', Op_Detach ''a'', Op_Id, Op_Events, Op_TurnOff,
        Op_Detach ''b'', Op_close]
       (new_AudioConfigImpl (MicAudioSource PcmRecorder)) idle)) = MicAudioSource PcmRecorder"
  using source_never_rebound [of "recorders (Resolved True)" 3
      "[Op_TurnOn, Op_Attach ''a'', Op_Detach ''a'', Op_Id, Op_Events, Op_TurnOff,
        Op_Detach ''b'', Op_close]"
      "MicAudioSource PcmRecorder" idle]
  by (simp add: wrapper_defs Detach_on_stack_overflows recorders_def recorder_def idle_def
      new_AudioConfigImpl_def)




text \<open>
  C9: \<open>close\<close> drops the promise of \<open>TurnOff\<close>. Whenever the wrapped source's \<open>TurnOff\<close>
  returns a promise, resolved or rejected, \<open>close\<close> returns \<open>void\<close>: the outcome of the
  deactivation cannot be read from what \<open>close\<close> returns.
\<close>

theorem close_drops_promise:
  assumes "TurnOff_m (I (source this)) w = (Inr p, w')"
  shows "close I this w = (Inr (), this, w')"
  using assms by (simp add: close_def)

theorem close_drops_promise_witness:
  "TurnOff_m (recorders (Rejected (Error ''DeactivationError'')) (source fromDefaultMicrophoneInput)) idle
     = (Inr (Rejected (Error ''DeactivationError'')), \<lparr>running = False, stops = 1\<rparr>) \<and>
   close (recorders (Rejected (Error ''DeactivationError''))) fromDefaultMicrophoneInput idle
     = (Inr (), fromDefaultMicrophoneInput, \<lparr>running = False, stops = 1\<rparr>)"
  using close_drops_promise [of "recorders (Rejected (Error ''DeactivationError''))"
      fromDefaultMicrophoneInput idle "Rejected (Error ''DeactivationError'')"
      "\<lparr>running = False, stops = 1\<rparr>"]
  by (simp add: recorders_def recorder_def idle_def)

section \<open>close\<close>

text \<open>
  C4, as amended: \<open>close\<close> calls the wrapped source's \<open>TurnOff\<close> once and changes nothing
  in the handle; it records no closed state. An \<open>Attach\<close> after \<open>close\<close> is forwarded to the
  wrapped source in the world that \<open>TurnOff\<close> left, and its outcome is the outcome of the
  wrapped source's \<open>Attach\<close> there: the wrapper raises no error of its own.
\<close>

theorem close_then_Attach_forwards:
  "snd (close I this w) = (this, snd (TurnOff_m (I (source this)) w)) \<and>
   close_then_Attach I this audioNodeId w
     = (fst (Attach_m (I (source this)) audioNodeId (snd (TurnOff_m (I (source this)) w))),
        this,
        snd (Attach_m (I (source this)) audioNodeId (snd (TurnOff_m (I (source this)) w))))"
  by (simp add: close_then_Attach_def close_def Attach_def split: prod.split sum.split)

text \<open>
  C4 as stated fails: on a handle whose source can be turned on again, \<open>Attach\<close> after
  \<open>close\<close> succeeds with a stream node; it does not fail with \<open>InvalidStateError\<close>.
\<close>

theorem close_then_Attach_counterexample:
  "fst (close_then_Attach (recorders (Resolved True)) fromDefaultMicrophoneInput ''node-1'' idle)
     = Inr (Resolved ''node-1'') \<and>
   \<not> fails_with ''InvalidStateError''
       (fst (close_then_Attach (recorders (Resolved True)) fromDefaultMicrophoneInput
          ''node-1'' idle))"
  by (simp add: close_then_Attach_def close_def Attach_def recorders_def recorder_def idle_def)

text \<open>
  C5, as amended: every \<open>close\<close> forwards one \<open>TurnOff\<close>. Two calls in succession invoke
  the wrapped source's \<open>TurnOff\<close> twice and leave the handle unchanged; the world after
  the second call is the world after the first exactly when the second \<open>TurnOff\<close> of the
  wrapped source changes nothing.
\<close>

theorem close_twice_forwards_twice:
  "snd (close_twice I this w)
     = (this, snd (TurnOff_m (I (source this)) (snd (TurnOff_m (I (source this)) w)))) \<and>
   (snd (close_twice I this w) = snd (close I this w) \<longleftrightarrow>
      snd (TurnOff_m (I (source this)) (snd (TurnOff_m (I (source this)) w)))
        = snd (TurnOff_m (I (source this)) w))"
  by (simp add: close_twice_def close_def split: prod.split sum.split)

text \<open>
  C5 as stated fails: on a source that counts its stops, two calls of \<open>close\<close> stop it
  twice, and the world after the second call differs from the world after the first.
\<close>

theorem close_twice_counterexample:
  "stops (snd (snd (close (recorders (Resolved True)) fromDefaultMicrophoneInput idle))) = 1 \<and>
   stops (snd (snd (close_twice (recorders (Resolved True)) fromDefaultMicrophoneInput idle))) = 2 \<and>
   snd (close_twice (recorders (Resolved True)) fromDefaultMicrophoneInput idle)
     \<noteq> snd (close (recorders (Resolved True)) fromDefaultMicrophoneInput idle)"
  by (simp add: close_twice_def close_def recorders_def recorder_def idle_def)

end
